theory Spec2Isabelle
  imports Main "HOL-Library.Word"
begin

unbundle bit_operations_syntax

section \<open>Go values used by pglocker\<close>

text \<open>
  \<^verbatim>\<open>time.Duration\<close> counts nanoseconds and a reading of the clock is an instant on the
  same scale. The package never does arithmetic on either; the only sum, in
  \<^verbatim>\<open>context.WithTimeout\<close>, is the standard library's.
\<close>

type_synonym duration = int
type_synonym instant = int

text \<open>
  The error values that can reach the package. The first three are the sentinels the
  package compares against with \<^verbatim>\<open>==\<close>; \<open>DriverError\<close> is any other error handed
  back by the database layer, \<open>ErrorString\<close> an error built by \<^verbatim>\<open>fmt.Errorf\<close> without
  the wrapping verb. A Go \<^verbatim>\<open>error\<close> that may be nil is an option.
\<close>

datatype goerr =
    DeadlineExceeded
  | Canceled
  | ErrConnDone
  | DriverError string
  | ErrorString string

type_synonym error = "goerr option"

fun Error :: "goerr \<Rightarrow> string" where
  "Error DeadlineExceeded = ''context deadline exceeded''"
| "Error Canceled = ''context canceled''"
| "Error ErrConnDone = ''sql: connection is already closed''"
| "Error (DriverError s) = s"
| "Error (ErrorString s) = s"

text \<open>The verb \<^verbatim>\<open>%v\<close> of \<^verbatim>\<open>fmt\<close> applied to an error that may be nil.\<close>

fun fmt_v :: "error \<Rightarrow> string" where
  "fmt_v None = ''<nil>''"
| "fmt_v (Some e) = Error e"

section \<open>Contexts\<close>

text \<open>
  The contexts of package \<^verbatim>\<open>context\<close>, by the constructor that made them.
  \<^verbatim>\<open>WithTimeout(parent, d)\<close> is \<^verbatim>\<open>WithDeadline(parent, time.Now().Add(d))\<close>. A cancel
  function is named by a number.
\<close>

datatype "context" =
    Background
  | WithCancel "context" nat
  | WithDeadline "context" instant

definition WithTimeout_ctx :: "instant \<Rightarrow> context \<Rightarrow> duration \<Rightarrow> context" where
  "WithTimeout_ctx now parent d = WithDeadline parent (now + d)"

record world =
  clock :: instant
  cancelled :: "nat list"

text \<open>Whether the channel \<^verbatim>\<open>Done()\<close> of a context is closed in a given world.\<close>

fun ctx_done :: "world \<Rightarrow> context \<Rightarrow> bool" where
  "ctx_done w Background = False"
| "ctx_done w (WithCancel p k) = (ctx_done w p \<or> k \<in> set (cancelled w))"
| "ctx_done w (WithDeadline p d) = (ctx_done w p \<or> d \<le> clock w)"

text \<open>The method \<^verbatim>\<open>Deadline()\<close>: the earliest deadline on the way to the root.\<close>

fun ctx_deadline :: "context \<Rightarrow> instant option" where
  "ctx_deadline Background = None"
| "ctx_deadline (WithCancel p k) = ctx_deadline p"
| "ctx_deadline (WithDeadline p d) =
     (case ctx_deadline p of None \<Rightarrow> Some d | Some d' \<Rightarrow> Some (min d d'))"

text \<open>\<open>derived_from c p\<close>: \<open>c\<close> is \<open>p\<close> or was built on top of it.\<close>

fun derived_from :: "context \<Rightarrow> context \<Rightarrow> bool" where
  "derived_from Background p = (p = Background)"
| "derived_from (WithCancel c k) p = (p = WithCancel c k \<or> derived_from c p)"
| "derived_from (WithDeadline c d) p = (p = WithDeadline c d \<or> derived_from c p)"

section \<open>The identifier of a lock name\<close>

text \<open>
  \<^verbatim>\<open>crc32.ChecksumIEEE\<close>, as the generic byte-at-a-time implementation of
  \<^verbatim>\<open>hash/crc32\<close> computes it: the table entry of a byte is eight shift-and-xor steps
  with the reversed polynomial, and the running checksum is complemented on the way in
  and on the way out.
\<close>

definition IEEE :: "32 word" where
  "IEEE = 0xedb88320"

definition crc_step :: "32 word \<Rightarrow> 32 word" where
  "crc_step crc = (if crc AND 1 = 1 then drop_bit 1 crc XOR IEEE else drop_bit 1 crc)"

definition simpleMakeTable :: "8 word \<Rightarrow> 32 word" where
  "simpleMakeTable i = (crc_step ^^ 8) (ucast i)"

definition simpleUpdate :: "32 word \<Rightarrow> 8 word list \<Rightarrow> 32 word" where
  "simpleUpdate crc p =
     NOT (fold (\<lambda>v c. simpleMakeTable (ucast c XOR v) XOR drop_bit 8 c) p (NOT crc))"

definition ChecksumIEEE :: "8 word list \<Rightarrow> 32 word" where
  "ChecksumIEEE p = simpleUpdate 0 p"

text \<open>The bytes of a Go string.\<close>

definition bytes :: "string \<Rightarrow> 8 word list" where
  "bytes s = map (\<lambda>c. of_nat (of_char c)) s"

definition lockID :: "string \<Rightarrow> 32 word" where
  "lockID lockName = ChecksumIEEE (bytes lockName)"

section \<open>The error classifier\<close>

definition ignoreableErrs :: "goerr list" where
  "ignoreableErrs = [DeadlineExceeded, Canceled, ErrConnDone]"

fun ignoreErr_range :: "goerr list \<Rightarrow> error \<Rightarrow> error" where
  "ignoreErr_range [] err = err"
| "ignoreErr_range (ignoreMe # rest) err =
     (if err = Some ignoreMe then None else ignoreErr_range rest err)"

definition ignoreErr :: "error \<Rightarrow> error" where
  "ignoreErr err = ignoreErr_range ignoreableErrs err"

section \<open>The session and its effects\<close>

text \<open>
  The database is an external collaborator: what each request returns is a parameter.
  \<open>db_Conn\<close> is the error of \<^verbatim>\<open>db.Conn(ctx)\<close>; \<open>conn_QueryRowScan\<close> is
  \<^verbatim>\<open>conn.QueryRowContext(ctx, query, arg).Scan(&ok)\<close>, an error or the scanned flag;
  \<open>conn_ExecContext\<close> is the error of \<^verbatim>\<open>conn.ExecContext(ctx, query, arg)\<close>.
  Every request is taken to return.
\<close>

record db =
  db_Conn :: "context \<Rightarrow> error"
  conn_QueryRowScan :: "context \<Rightarrow> string \<Rightarrow> 32 word \<Rightarrow> goerr + bool"
  conn_ExecContext :: "context \<Rightarrow> string \<Rightarrow> 32 word \<Rightarrow> error"

text \<open>What the package does to the outside, in the order it does it.\<close>

datatype event =
    DbConn "context"
  | QueryRowScan "context" string "32 word"
  | ExecContext "context" string "32 word"
  | PingContext "context"
  | ConnClose
  | CancelCtx "context"
  | MakeChan nat
  | Go
  | NewTicker duration
  | TickerStop
  | ChanSend error
  | ChanClose

subsection \<open>A channel of errors\<close>

record chan =
  cap :: nat
  buf :: "error list"
  closed :: bool

definition make_chan :: "nat \<Rightarrow> chan" where
  "make_chan n = \<lparr>cap = n, buf = [], closed = False\<rparr>"

text \<open>
  A send with no receiver waiting: it panics on a closed channel, goes into the buffer
  when there is room, and blocks otherwise.
\<close>

datatype send_result = Sent chan | SendBlocks | SendPanics

definition chan_send :: "chan \<Rightarrow> error \<Rightarrow> send_result" where
  "chan_send c v =
     (if closed c then SendPanics
      else if length (buf c) < cap c then Sent (c\<lparr>buf := buf c @ [v]\<rparr>)
      else SendBlocks)"

text \<open>Closing a closed channel panics: \<open>None\<close>.\<close>

definition chan_close :: "chan \<Rightarrow> chan option" where
  "chan_close c = (if closed c then None else Some (c\<lparr>closed := True\<rparr>))"

text \<open>
  A receive: the oldest buffered value; on an empty channel, the zero value with
  \<^verbatim>\<open>ok = false\<close> once the channel is closed, and a wait before that.
\<close>

datatype recv_result = Received error chan | RecvClosed | RecvBlocks

definition chan_recv :: "chan \<Rightarrow> recv_result" where
  "chan_recv c =
     (case buf c of
        v # rest \<Rightarrow> Received v (c\<lparr>buf := rest\<rparr>)
      | [] \<Rightarrow> if closed c then RecvClosed else RecvBlocks)"

section \<open>Options\<close>

definition defaultPingInterval :: duration where
  "defaultPingInterval = 10 * 1000000000"

record lockOpts =
  timeout :: duration
  pingInterval :: duration

type_synonym LockOption = "lockOpts \<Rightarrow> lockOpts"

definition WithTimeout :: "duration \<Rightarrow> LockOption" where
  "WithTimeout t = (\<lambda>opts. opts\<lparr>timeout := t\<rparr>)"

definition WithPingInterval :: "duration \<Rightarrow> LockOption" where
  "WithPingInterval p = (\<lambda>opts. opts\<lparr>pingInterval := p\<rparr>)"

section \<open>Acquisition and release\<close>

definition tryLock :: "db \<Rightarrow> context \<Rightarrow> string \<Rightarrow> (bool \<times> error) \<times> event list" where
  "tryLock env ctx lockName =
     (let q = ''SELECT pg_try_advisory_lock($1)'' in
      (case conn_QueryRowScan env ctx q (lockID lockName) of
         Inl err \<Rightarrow> (False, Some err)
       | Inr ok \<Rightarrow> (ok, None),
       [QueryRowScan ctx q (lockID lockName)]))"

text \<open>\<open>now\<close> is the reading of the clock when \<^verbatim>\<open>waitForLock\<close> is entered.\<close>

definition waitForLock ::
  "db \<Rightarrow> instant \<Rightarrow> context \<Rightarrow> string \<Rightarrow> duration \<Rightarrow> (bool \<times> error) \<times> event list" where
  "waitForLock env now ctx lockName t =
     (let ctx' = WithTimeout_ctx now ctx t;
          q = ''SELECT pg_advisory_lock($1)''
      in (case conn_ExecContext env ctx' q (lockID lockName) of
            Some err \<Rightarrow> (False, Some err)
          | None \<Rightarrow> (True, None),
          [ExecContext ctx' q (lockID lockName), CancelCtx ctx']))"

definition getLock ::
  "db \<Rightarrow> instant \<Rightarrow> context \<Rightarrow> string \<Rightarrow> duration \<Rightarrow> (bool \<times> error) \<times> event list" where
  "getLock env now ctx lockName t =
     (if t = 0 then tryLock env ctx lockName else waitForLock env now ctx lockName t)"

definition releaseLock :: "db \<Rightarrow> string \<Rightarrow> error \<times> event list" where
  "releaseLock env lockName =
     (let ctx = Background;
          q = ''SELECT pg_advisory_unlock($1)''
      in (conn_ExecContext env ctx q (lockID lockName), [ExecContext ctx q (lockID lockName)]))"

section \<open>The background task\<close>

text \<open>
  What the \<^verbatim>\<open>select\<close> of the loop receives, one entry for each time it wakes: the
  context is done and \<^verbatim>\<open>ctx.Err()\<close> is the given error, or the ticker fires and the
  ping returns the given result. When the list is used up the task is waiting in the
  \<^verbatim>\<open>select\<close>.
\<close>

datatype select_event = CtxDone goerr | Tick error

fun liveness_loop :: "context \<Rightarrow> error \<Rightarrow> select_event list \<Rightarrow> error \<times> event list" where
  "liveness_loop ctx (Some e) sched = (Some e, [])"
| "liveness_loop ctx None [] = (None, [])"
| "liveness_loop ctx None (CtxDone e # sched) = liveness_loop ctx (Some e) sched"
| "liveness_loop ctx None (Tick r # sched) =
     (let (lErr, tr) = liveness_loop ctx r sched in (lErr, PingContext ctx # tr))"

text \<open>
  How the task stands: it panicked, it waits in the \<^verbatim>\<open>select\<close> of the loop, it is
  blocked in the send, or it has returned.
\<close>

datatype outcome = Panicked string | InSelect | SendBlocked | Returned

text \<open>The deferred \<^verbatim>\<open>close(errs)\<close>, run on return and on panic alike.\<close>

definition deferred_close :: "outcome \<Rightarrow> event list \<Rightarrow> chan \<Rightarrow> outcome \<times> event list \<times> chan" where
  "deferred_close out tr errs =
     (case chan_close errs of
        Some errs' \<Rightarrow> (out, tr @ [ChanClose], errs')
      | None \<Rightarrow> (Panicked ''close of closed channel'', tr @ [ChanClose], errs))"

text \<open>
  The function started by \<^verbatim>\<open>go\<close>. \<^verbatim>\<open>time.NewTicker\<close> panics on an interval that is
  not positive, before the ticker's \<^verbatim>\<open>Stop\<close> is deferred.
\<close>

definition Lock_go ::
  "db \<Rightarrow> lockOpts \<Rightarrow> context \<Rightarrow> string \<Rightarrow> chan \<Rightarrow> select_event list
     \<Rightarrow> outcome \<times> event list \<times> chan" where
  "Lock_go env opts ctx lockName errs sched =
     (if pingInterval opts \<le> 0 then
        deferred_close (Panicked ''non-positive interval for NewTicker'') [] errs
      else
        (case liveness_loop ctx None sched of
           (None, tr) \<Rightarrow> (InSelect, NewTicker (pingInterval opts) # tr, errs)
         | (Some lErr, tr) \<Rightarrow>
             (let (rel, tr') = releaseLock env lockName;
                  releaseErr = ignoreErr rel;
                  lErr' = (if releaseErr \<noteq> None then releaseErr else Some lErr);
                  v = ignoreErr lErr';
                  before = NewTicker (pingInterval opts) # tr @ tr'
              in (case chan_send errs v of
                    Sent errs' \<Rightarrow>
                      deferred_close Returned (before @ [ChanSend v, TickerStop]) errs'
                  | SendBlocks \<Rightarrow> (SendBlocked, before, errs)
                  | SendPanics \<Rightarrow>
                      deferred_close (Panicked ''send on closed channel'')
                        (before @ [TickerStop]) errs))))"

section \<open>Lock\<close>

text \<open>
  One call of \<^verbatim>\<open>Lock\<close>: the two values it returns, what it did before returning, and
  the background task, when one was started, run on the given wake-ups.
\<close>

record lock_run =
  ret_chan :: "chan option"
  ret_err :: error
  effects :: "event list"
  goroutine :: "(outcome \<times> event list \<times> chan) option"

text \<open>The options record after the loop over \<^verbatim>\<open>options\<close>.\<close>

definition apply_options :: "LockOption list \<Rightarrow> lockOpts" where
  "apply_options options =
     fold (\<lambda>opt opts. opt opts) options \<lparr>timeout = 0, pingInterval = defaultPingInterval\<rparr>"

definition Lock ::
  "db \<Rightarrow> instant \<Rightarrow> context \<Rightarrow> string \<Rightarrow> LockOption list \<Rightarrow> select_event list \<Rightarrow> lock_run" where
  "Lock env now ctx lockName options sched =
     (let opts = apply_options options
      in (case db_Conn env ctx of
            Some err \<Rightarrow>
              \<lparr>ret_chan = None, ret_err = Some err, effects = [DbConn ctx], goroutine = None\<rparr>
          | None \<Rightarrow>
              (let ((ok, err), tr) = getLock env now ctx lockName (timeout opts) in
               if err \<noteq> None \<or> \<not> ok then
                 \<lparr>ret_chan = None,
                  ret_err = Some (ErrorString (''could not obtain lock: '' @ fmt_v err)),
                  effects = DbConn ctx # tr @ [ConnClose],
                  goroutine = None\<rparr>
               else
                 (let errs = make_chan 1 in
                  \<lparr>ret_chan = Some errs,
                   ret_err = None,
                   effects = DbConn ctx # tr @ [MakeChan 1, Go],
                   goroutine = Some (Lock_go env opts ctx lockName errs sched)\<rparr>))))"

section \<open>Observations on a run\<close>

text \<open>A wake-up that ends the loop: the context is done, or the ping fails.\<close>

fun exits :: "select_event \<Rightarrow> bool" where
  "exits (CtxDone e) = True"
| "exits (Tick r) = (r \<noteq> None)"

text \<open>The values sent on the channel, in order.\<close>

fun sends :: "event list \<Rightarrow> error list" where
  "sends [] = []"
| "sends (ChanSend v # tr) = v # sends tr"
| "sends (ev # tr) = sends tr"

section \<open>Sample databases\<close>

text \<open>\<open>db_free\<close>: the session is handed out and every request succeeds.\<close>

definition db_free :: db where
  "db_free =
     \<lparr>db_Conn = (\<lambda>ctx. None),
      conn_QueryRowScan = (\<lambda>ctx q k. Inr True),
      conn_ExecContext = (\<lambda>ctx q k. None)\<rparr>"

text \<open>
  \<open>db_held\<close>: another session holds the key. The try-claim answers false and the
  blocking claim runs into its deadline.
\<close>

definition db_held :: db where
  "db_held =
     \<lparr>db_Conn = (\<lambda>ctx. None),
      conn_QueryRowScan = (\<lambda>ctx q k. Inr False),
      conn_ExecContext =
        (\<lambda>ctx q k. if q = ''SELECT pg_advisory_lock($1)'' then Some DeadlineExceeded else None)\<rparr>"

text \<open>\<open>db_stuck\<close>: the claim is granted, and the unlock request fails in the driver.\<close>

definition db_stuck :: db where
  "db_stuck =
     \<lparr>db_Conn = (\<lambda>ctx. None),
      conn_QueryRowScan = (\<lambda>ctx q k. Inr True),
      conn_ExecContext =
        (\<lambda>ctx q k. if q = ''SELECT pg_advisory_unlock($1)''
                    then Some (DriverError ''pq: broken pipe'') else None)\<rparr>"

text \<open>
  \<open>db_gone\<close>: the claim is granted, and by the time of the unlock request the session
  is already closed.
\<close>

definition db_gone :: db where
  "db_gone =
     \<lparr>db_Conn = (\<lambda>ctx. None),
      conn_QueryRowScan = (\<lambda>ctx q k. Inr True),
      conn_ExecContext =
        (\<lambda>ctx q k. if q = ''SELECT pg_advisory_unlock($1)'' then Some ErrConnDone else None)\<rparr>"

section \<open>Facts about the parts\<close>

lemma ignoreErr_eq:
  "ignoreErr err =
     (if err = Some DeadlineExceeded \<or> err = Some Canceled \<or> err = Some ErrConnDone
      then None else err)"
  by (simp add: ignoreErr_def ignoreableErrs_def)

lemma derived_from_refl: "derived_from c c"
  by (cases c) simp_all

lemma tryLock_eq:
  "tryLock env ctx lockName =
     ((case conn_QueryRowScan env ctx ''SELECT pg_try_advisory_lock($1)'' (lockID lockName) of
         Inl err \<Rightarrow> (False, Some err) | Inr ok \<Rightarrow> (ok, None)),
      [QueryRowScan ctx ''SELECT pg_try_advisory_lock($1)'' (lockID lockName)])"
  by (simp add: tryLock_def Let_def)

lemma waitForLock_eq:
  "waitForLock env now ctx lockName t =
     ((case conn_ExecContext env (WithDeadline ctx (now + t))
              ''SELECT pg_advisory_lock($1)'' (lockID lockName) of
         Some err \<Rightarrow> (False, Some err) | None \<Rightarrow> (True, None)),
      [ExecContext (WithDeadline ctx (now + t)) ''SELECT pg_advisory_lock($1)'' (lockID lockName),
       CancelCtx (WithDeadline ctx (now + t))])"
  by (simp add: waitForLock_def WithTimeout_ctx_def Let_def)

lemma getLock_trace:
  "snd (getLock env now ctx lockName t) =
     (if t = 0 then [QueryRowScan ctx ''SELECT pg_try_advisory_lock($1)'' (lockID lockName)]
      else [ExecContext (WithDeadline ctx (now + t)) ''SELECT pg_advisory_lock($1)'' (lockID lockName),
            CancelCtx (WithDeadline ctx (now + t))])"
  by (simp add: getLock_def tryLock_eq waitForLock_eq)

lemma apply_options_nil: "apply_options [] = \<lparr>timeout = 0, pingInterval = defaultPingInterval\<rparr>"
  by (simp add: apply_options_def)

lemma apply_options_WithTimeout: "timeout (apply_options [WithTimeout t]) = t"
  by (simp add: apply_options_def WithTimeout_def)

lemma Lock_conn_error:
  "db_Conn env ctx = Some e \<Longrightarrow>
   Lock env now ctx lockName options sched =
     \<lparr>ret_chan = None, ret_err = Some e, effects = [DbConn ctx], goroutine = None\<rparr>"
  by (simp add: Lock_def)

lemma Lock_failed:
  assumes "db_Conn env ctx = None"
    and "getLock env now ctx lockName (timeout (apply_options options)) = ((ok, err), tr)"
    and "err \<noteq> None \<or> \<not> ok"
  shows "Lock env now ctx lockName options sched =
     \<lparr>ret_chan = None,
      ret_err = Some (ErrorString (''could not obtain lock: '' @ fmt_v err)),
      effects = DbConn ctx # tr @ [ConnClose],
      goroutine = None\<rparr>"
  using assms by (simp add: Lock_def Let_def)

lemma Lock_acquired:
  assumes "db_Conn env ctx = None"
    and "getLock env now ctx lockName (timeout (apply_options options)) = ((True, None), tr)"
  shows "Lock env now ctx lockName options sched =
     \<lparr>ret_chan = Some (make_chan 1),
      ret_err = None,
      effects = DbConn ctx # tr @ [MakeChan 1, Go],
      goroutine = Some (Lock_go env (apply_options options) ctx lockName (make_chan 1) sched)\<rparr>"
  using assms by (simp add: Lock_def Let_def)

lemma sends_append: "sends (xs @ ys) = sends xs @ sends ys"
  by (induction xs rule: sends.induct) simp_all

lemma liveness_loop_pings: "set (snd (liveness_loop ctx l sched)) \<subseteq> {PingContext ctx}"
  by (induction ctx l sched rule: liveness_loop.induct) (auto split: prod.splits)

lemma sends_pings: "set tr \<subseteq> {PingContext ctx} \<Longrightarrow> sends tr = []"
  by (induction tr rule: sends.induct) simp_all

lemma liveness_loop_exits:
  "(fst (liveness_loop ctx l sched) \<noteq> None) = (l \<noteq> None \<or> (\<exists>ev\<in>set sched. exits ev))"
  by (induction ctx l sched rule: liveness_loop.induct) (auto split: prod.splits)

lemma releaseLock_eq:
  "releaseLock env lockName =
     (conn_ExecContext env Background ''SELECT pg_advisory_unlock($1)'' (lockID lockName),
      [ExecContext Background ''SELECT pg_advisory_unlock($1)'' (lockID lockName)])"
  by (simp add: releaseLock_def Let_def)

lemma Lock_go_panics:
  "pingInterval opts \<le> 0 \<Longrightarrow>
   Lock_go env opts ctx lockName (make_chan 1) sched =
     (Panicked ''non-positive interval for NewTicker'', [ChanClose],
      \<lparr>cap = 1, buf = [], closed = True\<rparr>)"
  by (simp add: Lock_go_def deferred_close_def chan_close_def make_chan_def)

lemma Lock_go_waits:
  "0 < pingInterval opts \<Longrightarrow> liveness_loop ctx None sched = (None, tr) \<Longrightarrow>
   Lock_go env opts ctx lockName errs sched = (InSelect, NewTicker (pingInterval opts) # tr, errs)"
  by (simp add: Lock_go_def)

lemma Lock_go_returns:
  assumes "0 < pingInterval opts"
    and "liveness_loop ctx None sched = (Some lErr, tr)"
    and "rel = conn_ExecContext env Background ''SELECT pg_advisory_unlock($1)'' (lockID lockName)"
    and "v = (if ignoreErr rel \<noteq> None then rel else ignoreErr (Some lErr))"
  shows "Lock_go env opts ctx lockName (make_chan 1) sched =
     (Returned,
      NewTicker (pingInterval opts) # tr @
        [ExecContext Background ''SELECT pg_advisory_unlock($1)'' (lockID lockName),
         ChanSend v, TickerStop, ChanClose],
      \<lparr>cap = 1, buf = [v], closed = True\<rparr>)"
proof -
  have v: "ignoreErr (if ignoreErr rel \<noteq> None then ignoreErr rel else Some lErr) = v"
    using assms(4) by (auto simp: ignoreErr_eq split: if_splits)
  show ?thesis
    using assms(1,2) v
    by (simp add: Lock_go_def releaseLock_eq assms(3)[symmetric] Let_def chan_send_def
        deferred_close_def chan_close_def make_chan_def)
qed

lemma Lock_go_trace:
  assumes "Lock_go env opts ctx lockName errs sched = (out, trace, ch)"
  shows "set trace \<subseteq>
     {NewTicker (pingInterval opts), PingContext ctx,
      ExecContext Background ''SELECT pg_advisory_unlock($1)'' (lockID lockName),
      TickerStop, ChanClose} \<union> range ChanSend"
proof -
  obtain l tr where l: "liveness_loop ctx None sched = (l, tr)"
    by (metis prod.exhaust)
  then have tr: "set tr \<subseteq> {PingContext ctx}"
    using liveness_loop_pings [of ctx None sched] by simp
  show ?thesis
    using assms l tr
    by (auto simp: Lock_go_def deferred_close_def releaseLock_eq Let_def
        split: if_splits option.splits send_result.splits)
qed

lemma db_free_acquires:
  "db_Conn db_free ctx = None"
  "getLock db_free now ctx lockName (timeout (apply_options [])) =
     ((True, None), [QueryRowScan ctx ''SELECT pg_try_advisory_lock($1)'' (lockID lockName)])"
  "0 < pingInterval (apply_options [])"
  by (simp_all add: db_free_def apply_options_nil getLock_def tryLock_eq defaultPingInterval_def)

text \<open>The checksum of the one-letter name \<^verbatim>\<open>a\<close>, as every CRC-32 table lists it.\<close>

lemma lockID_check_value: "lockID ''a'' = 0xe8b7be43"
  by code_simp

lemma ignoreErr_idem: "ignoreErr (ignoreErr err) = ignoreErr err"
  by (simp add: ignoreErr_eq)

section \<open>Classification of errors\<close>

text \<open>
  C3. The classifier returns nil for exactly three error values, the deadline of a
  context, its cancellation and \<^verbatim>\<open>sql.ErrConnDone\<close>; any other error comes back as
  it went in, and so does nil.
\<close>

theorem ignoreErr_three_benign:
  "ignoreErr err =
     (if err \<in> {Some DeadlineExceeded, Some Canceled, Some ErrConnDone} then None else err)"
  by (simp add: ignoreErr_eq)

section \<open>Acquisition\<close>

text \<open>
  C5. The mode of acquisition depends on nothing but whether the timeout is zero.
  With a zero timeout \<^verbatim>\<open>getLock\<close> issues one try-claim under the caller's context and
  returns its flag, or false with the error of the request. With any other timeout it
  issues one blocking claim, under a context made from the caller's with the deadline
  at the timeout after the entry into the call; that context is done as soon as the
  caller's is done or the deadline is reached.
\<close>

theorem getLock_modes:
  "(t = 0 \<longrightarrow>
      getLock env now ctx lockName t =
        ((case conn_QueryRowScan env ctx ''SELECT pg_try_advisory_lock($1)'' (lockID lockName) of
            Inl err \<Rightarrow> (False, Some err) | Inr ok \<Rightarrow> (ok, None)),
         [QueryRowScan ctx ''SELECT pg_try_advisory_lock($1)'' (lockID lockName)]))
   \<and> (t \<noteq> 0 \<longrightarrow>
      getLock env now ctx lockName t =
        ((case conn_ExecContext env (WithTimeout_ctx now ctx t)
                 ''SELECT pg_advisory_lock($1)'' (lockID lockName) of
            Some err \<Rightarrow> (False, Some err) | None \<Rightarrow> (True, None)),
         [ExecContext (WithTimeout_ctx now ctx t) ''SELECT pg_advisory_lock($1)'' (lockID lockName),
          CancelCtx (WithTimeout_ctx now ctx t)])
      \<and> derived_from (WithTimeout_ctx now ctx t) ctx
      \<and> (\<forall>w. ctx_done w (WithTimeout_ctx now ctx t) = (ctx_done w ctx \<or> now + t \<le> clock w)))"
  by (simp add: getLock_def tryLock_eq waitForLock_eq WithTimeout_ctx_def derived_from_refl)

theorem getLock_modes_witness:
  "getLock db_held 100 (WithCancel Background 0) ''lock'' 0 =
     ((False, None),
      [QueryRowScan (WithCancel Background 0) ''SELECT pg_try_advisory_lock($1)'' (lockID ''lock'')])
   \<and> getLock db_held 100 (WithCancel Background 0) ''lock'' 5 =
     ((False, Some DeadlineExceeded),
      [ExecContext (WithDeadline (WithCancel Background 0) 105)
         ''SELECT pg_advisory_lock($1)'' (lockID ''lock''),
       CancelCtx (WithDeadline (WithCancel Background 0) 105)])
   \<and> ctx_done \<lparr>clock = 105, cancelled = []\<rparr> (WithDeadline (WithCancel Background 0) 105)
   \<and> ctx_done \<lparr>clock = 101, cancelled = [0]\<rparr> (WithDeadline (WithCancel Background 0) 105)
   \<and> \<not> ctx_done \<lparr>clock = 101, cancelled = []\<rparr> (WithDeadline (WithCancel Background 0) 105)"
  using getLock_modes [where t = 0 and env = db_held and now = 100
                         and ctx = "WithCancel Background 0" and lockName = "''lock''"]
        getLock_modes [where t = 5 and env = db_held and now = 100
                         and ctx = "WithCancel Background 0" and lockName = "''lock''"]
  by (simp add: db_held_def WithTimeout_ctx_def)

section \<open>What Lock returns\<close>

text \<open>
  C2. When the session was checked out and the acquisition fails, by an error of the
  request (a timeout of the wait is one) or by a false flag, \<^verbatim>\<open>Lock\<close> closes the
  session as the last thing it does, returns a nil channel with an error that is not
  nil, makes no channel and starts no background task.
\<close>

theorem Lock_failure_closes_session:
  assumes "db_Conn env ctx = None"
    and "getLock env now ctx lockName (timeout (apply_options options)) = ((ok, err), tr)"
    and "err \<noteq> None \<or> \<not> ok"
    and "r = Lock env now ctx lockName options sched"
  shows "ret_chan r = None
     \<and> ret_err r = Some (ErrorString (''could not obtain lock: '' @ fmt_v err))
     \<and> effects r = DbConn ctx # tr @ [ConnClose]
     \<and> (\<forall>n. MakeChan n \<notin> set (effects r))
     \<and> Go \<notin> set (effects r)
     \<and> goroutine r = None"
proof -
  have r: "r = \<lparr>ret_chan = None,
      ret_err = Some (ErrorString (''could not obtain lock: '' @ fmt_v err)),
      effects = DbConn ctx # tr @ [ConnClose],
      goroutine = None\<rparr>"
    using assms by (simp add: Lock_failed)
  have tr: "tr = snd (getLock env now ctx lockName (timeout (apply_options options)))"
    using assms(2) by simp
  have "(\<forall>n. MakeChan n \<notin> set tr) \<and> Go \<notin> set tr"
    unfolding tr getLock_trace by simp
  with r show ?thesis by simp
qed

theorem Lock_failure_closes_session_witness:
  "ret_chan (Lock db_held 100 (WithCancel Background 0) ''lock'' [WithTimeout 5] []) = None
   \<and> ret_err (Lock db_held 100 (WithCancel Background 0) ''lock'' [WithTimeout 5] [])
       = Some (ErrorString ''could not obtain lock: context deadline exceeded'')
   \<and> effects (Lock db_held 100 (WithCancel Background 0) ''lock'' [WithTimeout 5] [])
       = [DbConn (WithCancel Background 0),
          ExecContext (WithDeadline (WithCancel Background 0) 105) ''SELECT pg_advisory_lock($1)'' (lockID ''lock''),
          CancelCtx (WithDeadline (WithCancel Background 0) 105),
          ConnClose]"
proof -
  have c: "db_Conn db_held (WithCancel Background 0) = None"
    by (simp add: db_held_def)
  have g: "getLock db_held 100 (WithCancel Background 0) ''lock'' (timeout (apply_options [WithTimeout 5]))
      = ((False, Some DeadlineExceeded),
         [ExecContext (WithDeadline (WithCancel Background 0) 105) ''SELECT pg_advisory_lock($1)'' (lockID ''lock''),
          CancelCtx (WithDeadline (WithCancel Background 0) 105)])"
    by (simp add: apply_options_WithTimeout getLock_def waitForLock_eq db_held_def)
  have f: "Some DeadlineExceeded \<noteq> None \<or> \<not> False" by simp
  show ?thesis
    using Lock_failure_closes_session [OF c g f refl, of "[]"] by simp
qed

text \<open>
  C9. \<^verbatim>\<open>Lock\<close> never returns a nil channel together with a nil error. When the
  try-claim answers false without an error, the nil error is formatted into the error
  \<^verbatim>\<open>could not obtain lock: <nil>\<close>, which is not nil.
\<close>

theorem Lock_never_nil_nil:
  assumes "r = Lock env now ctx lockName options sched"
  shows "\<not> (ret_chan r = None \<and> ret_err r = None)
     \<and> (db_Conn env ctx = None \<and> timeout (apply_options options) = 0
          \<and> conn_QueryRowScan env ctx ''SELECT pg_try_advisory_lock($1)'' (lockID lockName) = Inr False
        \<longrightarrow> ret_chan r = None \<and> ret_err r = Some (ErrorString ''could not obtain lock: <nil>''))"
proof (intro conjI impI)
  show "\<not> (ret_chan r = None \<and> ret_err r = None)"
  proof (cases "db_Conn env ctx")
    case (Some e)
    then show ?thesis using assms by (simp add: Lock_conn_error)
  next
    case None
    obtain ok err tr where g:
      "getLock env now ctx lockName (timeout (apply_options options)) = ((ok, err), tr)"
      by (metis prod.exhaust)
    show ?thesis
    proof (cases "err \<noteq> None \<or> \<not> ok")
      case True
      then show ?thesis using assms None g Lock_failed [OF None g] by simp
    next
      case False
      then have "getLock env now ctx lockName (timeout (apply_options options)) = ((True, None), tr)"
        using g by simp
      then show ?thesis using assms None by (simp add: Lock_acquired)
    qed
  qed
next
  assume a: "db_Conn env ctx = None \<and> timeout (apply_options options) = 0
          \<and> conn_QueryRowScan env ctx ''SELECT pg_try_advisory_lock($1)'' (lockID lockName) = Inr False"
  then have g: "getLock env now ctx lockName (timeout (apply_options options)) =
      ((False, None), [QueryRowScan ctx ''SELECT pg_try_advisory_lock($1)'' (lockID lockName)])"
    by (simp add: getLock_def tryLock_eq)
  from a have c: "db_Conn env ctx = None" by simp
  show "ret_chan r = None" using assms Lock_failed [OF c g] by simp
  show "ret_err r = Some (ErrorString ''could not obtain lock: <nil>'')"
    using assms Lock_failed [OF c g] by simp
qed

theorem Lock_never_nil_nil_witness:
  "ret_chan (Lock db_held 100 (WithCancel Background 0) ''lock'' [] []) = None
   \<and> ret_err (Lock db_held 100 (WithCancel Background 0) ''lock'' [] [])
       = Some (ErrorString ''could not obtain lock: <nil>'')"
  using Lock_never_nil_nil [OF refl, of db_held 100 "WithCancel Background 0" "''lock''" "[]" "[]"]
  by (simp add: db_held_def apply_options_nil)

section \<open>The completion signal\<close>

text \<open>
  C1, as the code has it. After a successful acquisition with a positive ping
  interval: as long as the loop has not ended, nothing has been sent and a receive on
  the channel waits; once the loop has ended with a terminal cause, the task sends one
  value, after the unlock request has returned, and closes the channel after the send,
  so that a first receive gets the value and a second one finds the channel closed.
  The value is nil exactly when the release error and the terminal cause both classify
  to nil.
\<close>

theorem signal_delivered_once:
  assumes "db_Conn env ctx = None"
    and "getLock env now ctx lockName (timeout (apply_options options)) = ((True, None), tr0)"
    and "0 < pingInterval (apply_options options)"
    and "r = Lock env now ctx lockName options sched"
    and "rel = conn_ExecContext env Background ''SELECT pg_advisory_unlock($1)'' (lockID lockName)"
  shows "(\<forall>tr. liveness_loop ctx None sched = (None, tr) \<longrightarrow>
            goroutine r = Some (InSelect, NewTicker (pingInterval (apply_options options)) # tr, make_chan 1)
            \<and> sends (NewTicker (pingInterval (apply_options options)) # tr) = []
            \<and> chan_recv (make_chan 1) = RecvBlocks)
     \<and> (\<forall>lErr tr v. liveness_loop ctx None sched = (Some lErr, tr)
            \<and> v = (if ignoreErr rel \<noteq> None then rel else ignoreErr (Some lErr)) \<longrightarrow>
            goroutine r =
              Some (Returned,
                    NewTicker (pingInterval (apply_options options)) # tr @
                      [ExecContext Background ''SELECT pg_advisory_unlock($1)'' (lockID lockName),
                       ChanSend v, TickerStop, ChanClose],
                    \<lparr>cap = 1, buf = [v], closed = True\<rparr>)
            \<and> sends (NewTicker (pingInterval (apply_options options)) # tr) = []
            \<and> ChanClose \<notin> set (NewTicker (pingInterval (apply_options options)) # tr)
            \<and> chan_recv \<lparr>cap = 1, buf = [v], closed = True\<rparr>
                 = Received v \<lparr>cap = 1, buf = [], closed = True\<rparr>
            \<and> chan_recv \<lparr>cap = 1, buf = [], closed = True\<rparr> = RecvClosed
            \<and> (v = None) = (ignoreErr rel = None \<and> ignoreErr (Some lErr) = None))"
proof (intro conjI allI impI)
  note r = assms(4) [unfolded Lock_acquired [OF assms(1,2)]]
  fix tr
  assume l: "liveness_loop ctx None sched = (None, tr)"
  show "goroutine r = Some (InSelect, NewTicker (pingInterval (apply_options options)) # tr, make_chan 1)"
    using r Lock_go_waits [OF assms(3) l] by simp
  have "set tr \<subseteq> {PingContext ctx}"
    using liveness_loop_pings [of ctx None sched] l by simp
  then show "sends (NewTicker (pingInterval (apply_options options)) # tr) = []"
    by (simp add: sends_pings)
  show "chan_recv (make_chan 1) = RecvBlocks"
    by (simp add: chan_recv_def make_chan_def)
next
  note r = assms(4) [unfolded Lock_acquired [OF assms(1,2)]]
  fix lErr tr v
  assume a: "liveness_loop ctx None sched = (Some lErr, tr)
            \<and> v = (if ignoreErr rel \<noteq> None then rel else ignoreErr (Some lErr))"
  then have l: "liveness_loop ctx None sched = (Some lErr, tr)"
    and v: "v = (if ignoreErr rel \<noteq> None then rel else ignoreErr (Some lErr))"
    by simp_all
  show "goroutine r =
              Some (Returned,
                    NewTicker (pingInterval (apply_options options)) # tr @
                      [ExecContext Background ''SELECT pg_advisory_unlock($1)'' (lockID lockName),
                       ChanSend v, TickerStop, ChanClose],
                    \<lparr>cap = 1, buf = [v], closed = True\<rparr>)"
    using r Lock_go_returns [OF assms(3) l assms(5) v] by simp
  have p: "set tr \<subseteq> {PingContext ctx}"
    using liveness_loop_pings [of ctx None sched] l by simp
  then show "sends (NewTicker (pingInterval (apply_options options)) # tr) = []"
    by (simp add: sends_pings)
  show "ChanClose \<notin> set (NewTicker (pingInterval (apply_options options)) # tr)"
    using p by auto
  show "chan_recv \<lparr>cap = 1, buf = [v], closed = True\<rparr>
                 = Received v \<lparr>cap = 1, buf = [], closed = True\<rparr>"
    by (simp add: chan_recv_def)
  show "chan_recv \<lparr>cap = 1, buf = [], closed = True\<rparr> = RecvClosed"
    by (simp add: chan_recv_def)
  show "(v = None) = (ignoreErr rel = None \<and> ignoreErr (Some lErr) = None)"
    using v by (auto simp: ignoreErr_eq split: if_splits)
qed

theorem signal_delivered_once_witness:
  "goroutine (Lock db_free 0 (WithCancel Background 0) ''lock'' [] [Tick None, CtxDone Canceled]) =
     Some (Returned,
           [NewTicker 10000000000, PingContext (WithCancel Background 0),
            ExecContext Background ''SELECT pg_advisory_unlock($1)'' (lockID ''lock''),
            ChanSend None, TickerStop, ChanClose],
           \<lparr>cap = 1, buf = [None], closed = True\<rparr>)
   \<and> goroutine (Lock db_free 0 (WithCancel Background 0) ''lock'' [] [Tick None]) =
     Some (InSelect, [NewTicker 10000000000, PingContext (WithCancel Background 0)], make_chan 1)"
proof -
  have l1: "liveness_loop (WithCancel Background 0) None [Tick None, CtxDone Canceled]
            = (Some Canceled, [PingContext (WithCancel Background 0)])"
    by simp
  have l2: "liveness_loop (WithCancel Background 0) None [Tick None]
            = (None, [PingContext (WithCancel Background 0)])"
    by simp
  have e: "conn_ExecContext db_free Background ''SELECT pg_advisory_unlock($1)'' (lockID ''lock'') = None"
    by (simp add: db_free_def)
  show ?thesis
    using signal_delivered_once [OF db_free_acquires refl refl,
            where ctx = "WithCancel Background 0" and now = 0 and lockName = "''lock''"
              and sched = "[Tick None, CtxDone Canceled]"]
          signal_delivered_once [OF db_free_acquires refl refl,
            where ctx = "WithCancel Background 0" and now = 0 and lockName = "''lock''"
              and sched = "[Tick None]"]
          l1 l2 e
    by (simp add: apply_options_nil defaultPingInterval_def ignoreErr_eq)
qed

text \<open>
  With a ping interval of zero the acquisition succeeds all the same, and
  \<^verbatim>\<open>time.NewTicker\<close> panics in the task: the deferred close runs, nothing was sent,
  and a receive finds the channel closed.
\<close>

theorem signal_without_delivery_counterexample:
  "ret_chan (Lock db_free 0 (WithCancel Background 0) ''lock'' [WithPingInterval 0] [CtxDone Canceled])
     = Some (make_chan 1)
   \<and> ret_err (Lock db_free 0 (WithCancel Background 0) ''lock'' [WithPingInterval 0] [CtxDone Canceled])
     = None
   \<and> goroutine (Lock db_free 0 (WithCancel Background 0) ''lock'' [WithPingInterval 0] [CtxDone Canceled])
     = Some (Panicked ''non-positive interval for NewTicker'', [ChanClose],
             \<lparr>cap = 1, buf = [], closed = True\<rparr>)
   \<and> sends [ChanClose] = []
   \<and> chan_recv \<lparr>cap = 1, buf = [], closed = True\<rparr> = RecvClosed"
proof -
  have c: "db_Conn db_free (WithCancel Background 0) = None"
    by (simp add: db_free_def)
  have o: "apply_options [WithPingInterval 0] = \<lparr>timeout = 0, pingInterval = 0\<rparr>"
    by (simp add: apply_options_def WithPingInterval_def)
  have g: "getLock db_free 0 (WithCancel Background 0) ''lock''
             (timeout (apply_options [WithPingInterval 0])) =
           ((True, None),
            [QueryRowScan (WithCancel Background 0) ''SELECT pg_try_advisory_lock($1)''
               (lockID ''lock'')])"
    by (simp add: o getLock_def tryLock_eq db_free_def)
  have p: "Lock_go db_free \<lparr>timeout = 0, pingInterval = 0\<rparr> (WithCancel Background 0) ''lock''
             (make_chan 1) [CtxDone Canceled] =
           (Panicked ''non-positive interval for NewTicker'', [ChanClose],
            \<lparr>cap = 1, buf = [], closed = True\<rparr>)"
    by (rule Lock_go_panics) simp
  show ?thesis
    using p by (simp add: Lock_acquired [OF c g] o chan_recv_def)
qed

text \<open>
  C6. Once the loop has ended with a terminal cause (it ran, so the ticker was made
  and the ping interval is positive): when the unlock request fails with an error
  other than the deadline of a context, its cancellation and \<^verbatim>\<open>sql.ErrConnDone\<close>,
  that error is the one value sent and the terminal cause is dropped; when the request
  succeeds or fails with one of these three, the value sent is the terminal cause,
  turned into nil when it is itself one of the three.
\<close>

theorem release_error_supersedes:
  assumes "db_Conn env ctx = None"
    and "getLock env now ctx lockName (timeout (apply_options options)) = ((True, None), tr0)"
    and "0 < pingInterval (apply_options options)"
    and "liveness_loop ctx None sched = (Some lErr, tr)"
    and "rel = conn_ExecContext env Background ''SELECT pg_advisory_unlock($1)'' (lockID lockName)"
    and "goroutine (Lock env now ctx lockName options sched) = Some (out, trace, errs)"
  shows "(rel \<notin> {None, Some DeadlineExceeded, Some Canceled, Some ErrConnDone} \<longrightarrow>
           sends trace = [rel] \<and> buf errs = [rel])
     \<and> (rel \<in> {None, Some DeadlineExceeded, Some Canceled, Some ErrConnDone} \<longrightarrow>
           sends trace =
             [if lErr \<in> {DeadlineExceeded, Canceled, ErrConnDone} then None else Some lErr]
           \<and> buf errs =
             [if lErr \<in> {DeadlineExceeded, Canceled, ErrConnDone} then None else Some lErr])"
proof -
  have p: "sends tr = []"
    using liveness_loop_pings [of ctx None sched] assms(4) by (simp add: sends_pings)
  have "(out, trace, errs) =
     (Returned,
      NewTicker (pingInterval (apply_options options)) # tr @
        [ExecContext Background ''SELECT pg_advisory_unlock($1)'' (lockID lockName),
         ChanSend (if ignoreErr rel \<noteq> None then rel else ignoreErr (Some lErr)),
         TickerStop, ChanClose],
      \<lparr>cap = 1, buf = [if ignoreErr rel \<noteq> None then rel else ignoreErr (Some lErr)],
       closed = True\<rparr>)"
    using assms(6) Lock_go_returns [OF assms(3,4,5) refl]
    by (simp add: Lock_acquired [OF assms(1,2)])
  then have t: "sends trace = [if ignoreErr rel \<noteq> None then rel else ignoreErr (Some lErr)]"
    and b: "buf errs = [if ignoreErr rel \<noteq> None then rel else ignoreErr (Some lErr)]"
    using p by (simp_all add: sends_append)
  show ?thesis
    unfolding t b by (auto simp: ignoreErr_eq)
qed

theorem release_error_supersedes_witness:
  "goroutine (Lock db_stuck 0 (WithCancel Background 0) ''lock'' [] [CtxDone Canceled]) =
       Some (Returned,
             [NewTicker 10000000000,
              ExecContext Background ''SELECT pg_advisory_unlock($1)'' (lockID ''lock''),
              ChanSend (Some (DriverError ''pq: broken pipe'')), TickerStop, ChanClose],
             \<lparr>cap = 1, buf = [Some (DriverError ''pq: broken pipe'')], closed = True\<rparr>)
   \<and> sends [NewTicker 10000000000,
          ExecContext Background ''SELECT pg_advisory_unlock($1)'' (lockID ''lock''),
          ChanSend (Some (DriverError ''pq: broken pipe'')), TickerStop, ChanClose]
     = [Some (DriverError ''pq: broken pipe'')]
   \<and> goroutine (Lock db_gone 0 (WithCancel Background 0) ''lock'' []
                  [Tick (Some (DriverError ''driver: bad connection''))]) =
       Some (Returned,
             [NewTicker 10000000000, PingContext (WithCancel Background 0),
              ExecContext Background ''SELECT pg_advisory_unlock($1)'' (lockID ''lock''),
              ChanSend (Some (DriverError ''driver: bad connection'')), TickerStop, ChanClose],
             \<lparr>cap = 1, buf = [Some (DriverError ''driver: bad connection'')], closed = True\<rparr>)
   \<and> sends [NewTicker 10000000000, PingContext (WithCancel Background 0),
          ExecContext Background ''SELECT pg_advisory_unlock($1)'' (lockID ''lock''),
          ChanSend (Some (DriverError ''driver: bad connection'')), TickerStop, ChanClose]
     = [Some (DriverError ''driver: bad connection'')]"
proof -
  have i: "0 < pingInterval (apply_options [])"
    by (simp add: apply_options_nil defaultPingInterval_def)
  have c: "db_Conn db_stuck (WithCancel Background 0) = None"
    by (simp add: db_stuck_def)
  have g: "getLock db_stuck 0 (WithCancel Background 0) ''lock'' (timeout (apply_options [])) =
     ((True, None),
      [QueryRowScan (WithCancel Background 0) ''SELECT pg_try_advisory_lock($1)'' (lockID ''lock'')])"
    by (simp add: db_stuck_def apply_options_nil getLock_def tryLock_eq)
  have l: "liveness_loop (WithCancel Background 0) None [CtxDone Canceled] = (Some Canceled, [])"
    by simp
  have e: "Some (DriverError ''pq: broken pipe'') =
      conn_ExecContext db_stuck Background ''SELECT pg_advisory_unlock($1)'' (lockID ''lock'')"
    by (simp add: db_stuck_def)
  have go: "goroutine (Lock db_stuck 0 (WithCancel Background 0) ''lock'' [] [CtxDone Canceled]) =
       Some (Returned,
             [NewTicker 10000000000,
              ExecContext Background ''SELECT pg_advisory_unlock($1)'' (lockID ''lock''),
              ChanSend (Some (DriverError ''pq: broken pipe'')), TickerStop, ChanClose],
             \<lparr>cap = 1, buf = [Some (DriverError ''pq: broken pipe'')], closed = True\<rparr>)"
    using Lock_go_returns [OF i l e refl]
    by (simp add: Lock_acquired [OF c g] apply_options_nil defaultPingInterval_def ignoreErr_eq)
  have c': "db_Conn db_gone (WithCancel Background 0) = None"
    by (simp add: db_gone_def)
  have g': "getLock db_gone 0 (WithCancel Background 0) ''lock'' (timeout (apply_options [])) =
     ((True, None),
      [QueryRowScan (WithCancel Background 0) ''SELECT pg_try_advisory_lock($1)'' (lockID ''lock'')])"
    by (simp add: db_gone_def apply_options_nil getLock_def tryLock_eq)
  have l': "liveness_loop (WithCancel Background 0) None
              [Tick (Some (DriverError ''driver: bad connection''))] =
            (Some (DriverError ''driver: bad connection''), [PingContext (WithCancel Background 0)])"
    by simp
  have e': "Some ErrConnDone =
      conn_ExecContext db_gone Background ''SELECT pg_advisory_unlock($1)'' (lockID ''lock'')"
    by (simp add: db_gone_def)
  have go': "goroutine (Lock db_gone 0 (WithCancel Background 0) ''lock'' []
                  [Tick (Some (DriverError ''driver: bad connection''))]) =
       Some (Returned,
             [NewTicker 10000000000, PingContext (WithCancel Background 0),
              ExecContext Background ''SELECT pg_advisory_unlock($1)'' (lockID ''lock''),
              ChanSend (Some (DriverError ''driver: bad connection'')), TickerStop, ChanClose],
             \<lparr>cap = 1, buf = [Some (DriverError ''driver: bad connection'')], closed = True\<rparr>)"
    using Lock_go_returns [OF i l' e' refl]
    by (simp add: Lock_acquired [OF c' g'] apply_options_nil defaultPingInterval_def ignoreErr_eq)
  show ?thesis
    using release_error_supersedes [OF c g i l e go]
          release_error_supersedes [OF c' g' i l' e' go'] go go'
    by simp
qed

section \<open>The release\<close>

text \<open>
  C4, as the code has it. The unlock request runs under \<^verbatim>\<open>context.Background()\<close>:
  it is not built on the caller's context, it is never done, whatever is cancelled and
  whatever the clock reads, so that cancelling the caller's context cannot abort the
  request; and it has no deadline.
\<close>

theorem releaseLock_context:
  "releaseLock env lockName =
     (conn_ExecContext env Background ''SELECT pg_advisory_unlock($1)'' (lockID lockName),
      [ExecContext Background ''SELECT pg_advisory_unlock($1)'' (lockID lockName)])
   \<and> (ctx \<noteq> Background \<longrightarrow> \<not> derived_from Background ctx)
   \<and> (\<forall>w. \<not> ctx_done w Background)
   \<and> ctx_deadline Background = None"
  by (simp add: releaseLock_eq)

theorem releaseLock_context_witness:
  "releaseLock db_stuck ''lock'' =
     (Some (DriverError ''pq: broken pipe''),
      [ExecContext Background ''SELECT pg_advisory_unlock($1)'' (lockID ''lock'')])
   \<and> \<not> derived_from Background (WithCancel Background 0)
   \<and> ctx_done \<lparr>clock = 7, cancelled = [0]\<rparr> (WithCancel Background 0)
   \<and> \<not> ctx_done \<lparr>clock = 7, cancelled = [0]\<rparr> Background"
  using releaseLock_context [where env = db_stuck and lockName = "''lock''"
          and ctx = "WithCancel Background 0"]
  by (simp add: db_stuck_def)

text \<open>The context of the unlock request carries no deadline of its own.\<close>

theorem release_has_no_deadline_counterexample:
  "snd (releaseLock db_free ''lock'') =
     [ExecContext Background ''SELECT pg_advisory_unlock($1)'' (lockID ''lock'')]
   \<and> ctx_deadline Background = None"
  by (simp add: releaseLock_eq)

section \<open>The session after the acquisition\<close>

text \<open>
  C7 asks that the session of a held lock be closed when the lock is released or the
  loop ends. On the code: after a successful acquisition neither \<^verbatim>\<open>Lock\<close> nor the
  background task ever closes the session, however the task ends.
\<close>

theorem held_session_never_closed:
  assumes "db_Conn env ctx = None"
    and "getLock env now ctx lockName (timeout (apply_options options)) = ((True, None), tr0)"
    and "r = Lock env now ctx lockName options sched"
  shows "ConnClose \<notin> set (effects r)
     \<and> (\<forall>out trace errs. goroutine r = Some (out, trace, errs) \<longrightarrow> ConnClose \<notin> set trace)"
proof -
  have tr0: "tr0 = snd (getLock env now ctx lockName (timeout (apply_options options)))"
    using assms(2) by simp
  have "ConnClose \<notin> set tr0"
    unfolding tr0 getLock_trace by simp
  moreover have "ConnClose \<notin> set trace"
    if "Lock_go env (apply_options options) ctx lockName (make_chan 1) sched = (out, trace, errs)"
    for out trace errs
    using Lock_go_trace [OF that] by auto
  ultimately show ?thesis
    using assms(3) by (simp add: Lock_acquired [OF assms(1,2)])
qed

theorem held_session_never_closed_witness:
  "effects (Lock db_free 0 (WithCancel Background 0) ''lock'' [] [Tick None, CtxDone Canceled]) =
     [DbConn (WithCancel Background 0),
      QueryRowScan (WithCancel Background 0) ''SELECT pg_try_advisory_lock($1)'' (lockID ''lock''),
      MakeChan 1, Go]
   \<and> goroutine (Lock db_free 0 (WithCancel Background 0) ''lock'' [] [Tick None, CtxDone Canceled]) =
     Some (Returned,
           [NewTicker 10000000000, PingContext (WithCancel Background 0),
            ExecContext Background ''SELECT pg_advisory_unlock($1)'' (lockID ''lock''),
            ChanSend None, TickerStop, ChanClose],
           \<lparr>cap = 1, buf = [None], closed = True\<rparr>)
   \<and> ConnClose \<notin> set [NewTicker 10000000000, PingContext (WithCancel Background 0),
            ExecContext Background ''SELECT pg_advisory_unlock($1)'' (lockID ''lock''),
            ChanSend None, TickerStop, ChanClose]"
proof -
  have l: "liveness_loop (WithCancel Background 0) None [Tick None, CtxDone Canceled]
            = (Some Canceled, [PingContext (WithCancel Background 0)])"
    by simp
  have e: "None = conn_ExecContext db_free Background ''SELECT pg_advisory_unlock($1)'' (lockID ''lock'')"
    by (simp add: db_free_def)
  have go: "goroutine (Lock db_free 0 (WithCancel Background 0) ''lock'' [] [Tick None, CtxDone Canceled]) =
     Some (Returned,
           [NewTicker 10000000000, PingContext (WithCancel Background 0),
            ExecContext Background ''SELECT pg_advisory_unlock($1)'' (lockID ''lock''),
            ChanSend None, TickerStop, ChanClose],
           \<lparr>cap = 1, buf = [None], closed = True\<rparr>)"
    using Lock_go_returns [OF db_free_acquires(3) l e refl]
    by (simp add: Lock_acquired [OF db_free_acquires(1,2)] apply_options_nil
        defaultPingInterval_def ignoreErr_eq)
  show ?thesis
    using held_session_never_closed [OF db_free_acquires(1,2) refl,
            where ctx = "WithCancel Background 0" and now = 0 and lockName = "''lock''"
              and sched = "[Tick None, CtxDone Canceled]"] go
    by (simp add: Lock_acquired [OF db_free_acquires(1,2)])
qed

section \<open>One key for a name\<close>

text \<open>
  C8. \<open>lockID\<close> is a function of the name alone, the IEEE checksum of its bytes as a
  32-bit word, defined on every name. The try-claim, the blocking claim and the unlock
  request all carry \<open>lockID lockName\<close>, and so does every request of a call of
  \<^verbatim>\<open>Lock\<close> and of its background task.
\<close>

theorem lockID_same_key:
  assumes "r = Lock env now ctx lockName options sched"
  shows "lockID lockName = ChecksumIEEE (bytes lockName)
     \<and> snd (tryLock env ctx lockName) =
         [QueryRowScan ctx ''SELECT pg_try_advisory_lock($1)'' (lockID lockName)]
     \<and> snd (waitForLock env now ctx lockName t) =
         [ExecContext (WithTimeout_ctx now ctx t) ''SELECT pg_advisory_lock($1)'' (lockID lockName),
          CancelCtx (WithTimeout_ctx now ctx t)]
     \<and> snd (releaseLock env lockName) =
         [ExecContext Background ''SELECT pg_advisory_unlock($1)'' (lockID lockName)]
     \<and> (\<forall>c q k. QueryRowScan c q k \<in> set (effects r) \<or> ExecContext c q k \<in> set (effects r)
            \<longrightarrow> k = lockID lockName)
     \<and> (\<forall>out trace errs c q k.
            goroutine r = Some (out, trace, errs) \<and> ExecContext c q k \<in> set trace
            \<longrightarrow> k = lockID lockName)"
proof (intro conjI allI impI)
  show "lockID lockName = ChecksumIEEE (bytes lockName)"
    by (simp add: lockID_def)
  show "snd (tryLock env ctx lockName) =
         [QueryRowScan ctx ''SELECT pg_try_advisory_lock($1)'' (lockID lockName)]"
    by (simp add: tryLock_eq)
  show "snd (waitForLock env now ctx lockName t) =
         [ExecContext (WithTimeout_ctx now ctx t) ''SELECT pg_advisory_lock($1)'' (lockID lockName),
          CancelCtx (WithTimeout_ctx now ctx t)]"
    by (simp add: waitForLock_eq WithTimeout_ctx_def)
  show "snd (releaseLock env lockName) =
         [ExecContext Background ''SELECT pg_advisory_unlock($1)'' (lockID lockName)]"
    by (simp add: releaseLock_eq)
next
  fix c q k
  assume a: "QueryRowScan c q k \<in> set (effects r) \<or> ExecContext c q k \<in> set (effects r)"
  obtain ok err tr where g:
    "getLock env now ctx lockName (timeout (apply_options options)) = ((ok, err), tr)"
    by (metis prod.exhaust)
  then have tr: "tr = snd (getLock env now ctx lockName (timeout (apply_options options)))"
    by simp
  have k: "QueryRowScan c q k \<in> set tr \<or> ExecContext c q k \<in> set tr \<Longrightarrow> k = lockID lockName"
    unfolding tr getLock_trace by (auto split: if_splits)
  show "k = lockID lockName"
  proof (cases "db_Conn env ctx")
    case (Some e)
    then show ?thesis using a assms by (simp add: Lock_conn_error)
  next
    case None
    show ?thesis
    proof (cases "err \<noteq> None \<or> \<not> ok")
      case True
      then show ?thesis using a k assms by (auto simp: Lock_failed [OF None g])
    next
      case False
      then have "getLock env now ctx lockName (timeout (apply_options options)) = ((True, None), tr)"
        using g by simp
      then show ?thesis using a k assms None by (auto simp: Lock_acquired)
    qed
  qed
next
  fix out trace errs c q k
  assume a: "goroutine r = Some (out, trace, errs) \<and> ExecContext c q k \<in> set trace"
  have "\<exists>opts ch. Lock_go env opts ctx lockName ch sched = (out, trace, errs)"
    using a assms by (auto simp: Lock_def Let_def split: option.splits prod.splits if_splits)
  then obtain opts ch where "Lock_go env opts ctx lockName ch sched = (out, trace, errs)"
    by blast
  from Lock_go_trace [OF this] a show "k = lockID lockName"
    by auto
qed

theorem lockID_same_key_witness:
  "snd (tryLock db_free (WithCancel Background 0) ''a'') =
     [QueryRowScan (WithCancel Background 0) ''SELECT pg_try_advisory_lock($1)'' 0xe8b7be43]
   \<and> snd (waitForLock db_free 100 (WithCancel Background 0) ''a'' 5) =
     [ExecContext (WithDeadline (WithCancel Background 0) 105) ''SELECT pg_advisory_lock($1)''
        0xe8b7be43,
      CancelCtx (WithDeadline (WithCancel Background 0) 105)]
   \<and> snd (releaseLock db_free ''a'') =
     [ExecContext Background ''SELECT pg_advisory_unlock($1)'' 0xe8b7be43]"
  using lockID_same_key [OF refl, where env = db_free and now = 100
          and ctx = "WithCancel Background 0" and lockName = "''a''" and t = 5]
  by (simp add: WithTimeout_ctx_def lockID_check_value)

section \<open>The send on the channel\<close>

text \<open>
  C10, as the code has it. The channel is made with capacity one and empty. Whatever
  the options and the wake-ups, the background task is never blocked in its send and
  sends at most once. With a positive ping interval and a wake-up that ends the loop
  it returns, having sent exactly one value and closed the channel after the send; no
  receive by the caller takes part in that.
\<close>

theorem send_never_blocks:
  assumes "db_Conn env ctx = None"
    and "getLock env now ctx lockName (timeout (apply_options options)) = ((True, None), tr0)"
    and "r = Lock env now ctx lockName options sched"
  shows "ret_chan r = Some (make_chan 1) \<and> cap (make_chan 1) = 1 \<and> buf (make_chan 1) = []
     \<and> (\<exists>out trace errs.
          goroutine r = Some (out, trace, errs)
          \<and> out \<noteq> SendBlocked
          \<and> length (sends trace) \<le> 1
          \<and> (0 < pingInterval (apply_options options) \<and> (\<exists>ev\<in>set sched. exits ev) \<longrightarrow>
               out = Returned
               \<and> (\<exists>pre v. trace = pre @ [ChanSend v, TickerStop, ChanClose]
                     \<and> sends pre = [] \<and> ChanClose \<notin> set pre \<and> buf errs = [v])))"
proof -
  note r = assms(3) [unfolded Lock_acquired [OF assms(1,2)]]
  let ?opts = "apply_options options"
  let ?go = "Lock_go env ?opts ctx lockName (make_chan 1) sched"
  have go: "goroutine r = Some ?go" and ch: "ret_chan r = Some (make_chan 1)"
    using r by simp_all
  obtain l tr where l: "liveness_loop ctx None sched = (l, tr)"
    by (metis prod.exhaust)
  have tr: "set tr \<subseteq> {PingContext ctx}"
    using liveness_loop_pings [of ctx None sched] l by simp
  have ex: "(l \<noteq> None) = (\<exists>ev\<in>set sched. exits ev)"
    using liveness_loop_exits [of ctx None sched] l by simp
  have "\<exists>out trace errs.
          ?go = (out, trace, errs)
          \<and> out \<noteq> SendBlocked
          \<and> length (sends trace) \<le> 1
          \<and> (0 < pingInterval ?opts \<and> (\<exists>ev\<in>set sched. exits ev) \<longrightarrow>
               out = Returned
               \<and> (\<exists>pre v. trace = pre @ [ChanSend v, TickerStop, ChanClose]
                     \<and> sends pre = [] \<and> ChanClose \<notin> set pre \<and> buf errs = [v]))"
  proof (cases "pingInterval ?opts \<le> 0")
    case True
    show ?thesis
      unfolding Lock_go_panics [OF True] using True by simp
  next
    case False
    then have pos: "0 < pingInterval ?opts" by simp
    show ?thesis
    proof (cases l)
      case None
      have "\<not> (\<exists>ev\<in>set sched. exits ev)"
        using ex None by simp
      then show ?thesis
        unfolding Lock_go_waits [OF pos l [unfolded None]] using tr by (simp add: sends_pings)
    next
      case (Some lErr)
      let ?q = "ExecContext Background ''SELECT pg_advisory_unlock($1)'' (lockID lockName)"
      let ?pre = "NewTicker (pingInterval ?opts) # tr @ [?q]"
      have s: "sends ?pre = []" and c: "ChanClose \<notin> set ?pre"
        using tr by (auto simp: sends_append sends_pings)
      obtain v where g: "?go = (Returned, ?pre @ [ChanSend v, TickerStop, ChanClose],
                                \<lparr>cap = 1, buf = [v], closed = True\<rparr>)"
        using Lock_go_returns [OF pos l [unfolded Some] refl refl] by simp
      have "length (sends (?pre @ [ChanSend v, TickerStop, ChanClose])) \<le> 1"
        using s by (simp add: sends_append)
      moreover have "\<exists>pre' v'. ?pre @ [ChanSend v, TickerStop, ChanClose]
                         = pre' @ [ChanSend v', TickerStop, ChanClose]
                       \<and> sends pre' = [] \<and> ChanClose \<notin> set pre' \<and> [v] = [v']"
        using s c by blast
      ultimately show ?thesis
        unfolding g by simp
    qed
  qed
  then show ?thesis
    using go ch by (simp add: make_chan_def)
qed

theorem send_never_blocks_witness:
  "ret_chan (Lock db_free 0 (WithCancel Background 0) ''lock'' [] [Tick None, CtxDone Canceled])
     = Some (make_chan 1)
   \<and> fst (the (goroutine
        (Lock db_free 0 (WithCancel Background 0) ''lock'' [] [Tick None, CtxDone Canceled])))
     = Returned"
proof -
  have e: "exits (CtxDone Canceled)" by simp
  show ?thesis
    using send_never_blocks [OF db_free_acquires(1,2) refl,
            where ctx = "WithCancel Background 0" and now = 0 and lockName = "''lock''"
              and sched = "[Tick None, CtxDone Canceled]"]
          db_free_acquires(3) e
    by auto
qed

text \<open>
  With a negative ping interval the task closes the channel, by the deferred close
  that runs on the panic of \<^verbatim>\<open>time.NewTicker\<close>, without a send before it.
\<close>

theorem close_without_send_counterexample:
  "goroutine (Lock db_free 0 (WithCancel Background 0) ''lock'' [WithPingInterval (- 1)]
                [Tick None, CtxDone Canceled])
     = Some (Panicked ''non-positive interval for NewTicker'', [ChanClose],
             \<lparr>cap = 1, buf = [], closed = True\<rparr>)
   \<and> length (sends [ChanClose]) = 0"
proof -
  have c: "db_Conn db_free (WithCancel Background 0) = None"
    by (simp add: db_free_def)
  have o: "apply_options [WithPingInterval (- 1)] = \<lparr>timeout = 0, pingInterval = - 1\<rparr>"
    by (simp add: apply_options_def WithPingInterval_def)
  have g: "getLock db_free 0 (WithCancel Background 0) ''lock''
             (timeout (apply_options [WithPingInterval (- 1)])) =
           ((True, None),
            [QueryRowScan (WithCancel Background 0) ''SELECT pg_try_advisory_lock($1)''
               (lockID ''lock'')])"
    by (simp add: o getLock_def tryLock_eq db_free_def)
  have p: "Lock_go db_free \<lparr>timeout = 0, pingInterval = - 1\<rparr> (WithCancel Background 0) ''lock''
             (make_chan 1) [Tick None, CtxDone Canceled] =
           (Panicked ''non-positive interval for NewTicker'', [ChanClose],
            \<lparr>cap = 1, buf = [], closed = True\<rparr>)"
    by (rule Lock_go_panics) simp
  show ?thesis
    using p by (simp add: Lock_acquired [OF c g] o)
qed

end
